theory Spec2Isabelle
  imports Main "HOL-Library.Word"
begin

section \<open>Synchronous batch normalization (horovod/torch/sync\_batch\_norm.py)\<close>

text \<open>
  The file under verification holds two classes: the module \<open>SyncBatchNorm\<close> (a
  \<open>_BatchNorm\<close>) and the autograd function \<open>_SyncBatchNorm\<close> with its static
  \<open>forward\<close> and \<open>backward\<close>. Both are orchestration code around numeric kernels of
  torch and the collective operations of \<open>horovod.torch.mpi_ops\<close>. Neither the kernels
  nor the collectives are defined in the file, so they are parameters of the model
  (records of functions); what the file itself does (its checks, its dispatch, the
  order in which it issues and awaits collectives, what it returns) is modelled
  statement by statement.
\<close>

subsection \<open>Tensors\<close>

text \<open>
  Of a tensor the code reads \<open>is_cuda\<close>, \<open>dim()\<close>, \<open>numel()\<close> and \<open>size(1)\<close>; the
  numeric contents are only handed on to kernels and stay abstract (\<open>payload\<close>).
\<close>

record 'a tensor =
  shape :: "nat list"
  is_cuda :: bool
  payload :: 'a

datatype error =
    ValueError_expected_GPU
      \<comment> \<open>line 56: SyncBatchNorm expected input tensor to be on GPU\<close>
  | ValueError_expected_2D nat
      \<comment> \<open>line 51: expected at least 2D input (got nD input)\<close>
  | ValueError_one_value_per_channel nat
      \<comment> \<open>line 80: Expected more than 1 value per channel when training, got input size n\<close>
  | IndexError
      \<comment> \<open>\<open>input.size(1)\<close> on a tensor of fewer than two dimensions\<close>
  | ZeroDivisionError
      \<comment> \<open>\<open>//\<close> of Python integers by zero\<close>

definition dim :: "'a tensor \<Rightarrow> nat" where
  "dim t = length (shape t)"

definition numel :: "'a tensor \<Rightarrow> nat" where
  "numel t = prod_list (shape t)"

definition size_at :: "'a tensor \<Rightarrow> nat \<Rightarrow> error + nat" where
  "size_at t i = (if i < length (shape t) then Inr (shape t ! i) else Inl IndexError)"

text \<open>\<open>contiguous()\<close> changes the memory layout only, never shape, device or values.\<close>

definition contiguous :: "'a tensor \<Rightarrow> 'a tensor" where
  "contiguous t = t"

definition unsqueeze :: "'a tensor \<Rightarrow> nat \<Rightarrow> 'a tensor" where
  "unsqueeze t d = t\<lparr>shape := take d (shape t) @ [1] @ drop d (shape t)\<rparr>"

text \<open>\<open>view(-1)\<close>: the same values as a one-dimensional tensor.\<close>

definition view_flat :: "'a tensor \<Rightarrow> 'a tensor" where
  "view_flat t = t\<lparr>shape := [numel t]\<rparr>"

text \<open>Python's floor division of two non-negative integers.\<close>

definition floordiv :: "nat \<Rightarrow> nat \<Rightarrow> error + nat" where
  "floordiv a b = (if b = 0 then Inl ZeroDivisionError else Inr (a div b))"

subsection \<open>The kernels of torch (parameters)\<close>

text \<open>
  \<open>'a\<close> is the contents of a tensor, \<open>'r\<close> a floating-point scalar (\<open>eps\<close>,
  \<open>momentum\<close>). A kernel that updates \<open>running_mean\<close> and \<open>running_var\<close> in place
  returns their new values beside its result. \<open>batch_norm_backward_reduce\<close> returns four
  values; those that were not requested are never read by the code below. Kernels and
  collectives are total functions here: an exception raised inside one of them (a
  failure of the transport, a check of torch's own) is not an event of this file.
\<close>

record ('a, 'r) torch =
  tensor_of_ints :: "int list \<Rightarrow> 'a"
  ints_of_tensor :: "'a \<Rightarrow> int list"
  F_batch_norm ::
    "'a tensor \<Rightarrow> 'a tensor option \<Rightarrow> 'a tensor option \<Rightarrow> 'a tensor option \<Rightarrow>
     'a tensor option \<Rightarrow> bool \<Rightarrow> 'r option \<Rightarrow> 'r \<Rightarrow>
     'a tensor \<times> 'a tensor option \<times> 'a tensor option"
  batch_norm_stats :: "'a tensor \<Rightarrow> 'r \<Rightarrow> 'a tensor \<times> 'a tensor"
  batch_norm_gather_stats_with_counts ::
    "'a tensor \<Rightarrow> 'a tensor \<Rightarrow> 'a tensor \<Rightarrow> 'a tensor option \<Rightarrow> 'a tensor option \<Rightarrow>
     'r option \<Rightarrow> 'r \<Rightarrow> int list \<Rightarrow>
     ('a tensor \<times> 'a tensor) \<times> 'a tensor option \<times> 'a tensor option"
  batch_norm_elemt ::
    "'a tensor \<Rightarrow> 'a tensor option \<Rightarrow> 'a tensor option \<Rightarrow> 'a tensor \<Rightarrow> 'a tensor \<Rightarrow> 'r \<Rightarrow>
     'a tensor"
  batch_norm_backward_reduce ::
    "'a tensor \<Rightarrow> 'a tensor \<Rightarrow> 'a tensor \<Rightarrow> 'a tensor \<Rightarrow> 'a tensor option \<Rightarrow>
     bool \<Rightarrow> bool \<Rightarrow> bool \<Rightarrow>
     'a tensor \<times> 'a tensor \<times> 'a tensor \<times> 'a tensor"
  batch_norm_backward_elemt ::
    "'a tensor \<Rightarrow> 'a tensor \<Rightarrow> 'a tensor \<Rightarrow> 'a tensor \<Rightarrow> 'a tensor option \<Rightarrow>
     'a tensor \<Rightarrow> 'a tensor \<Rightarrow> 'a tensor"

text \<open>\<open>torch.tensor([n])\<close>: a new one-dimensional tensor in host memory.\<close>

definition torch_tensor :: "('a, 'r) torch \<Rightarrow> int list \<Rightarrow> 'a tensor" where
  "torch_tensor K xs = \<lparr>shape = [length xs], is_cuda = False, payload = tensor_of_ints K xs\<rparr>"

definition tolist :: "('a, 'r) torch \<Rightarrow> 'a tensor \<Rightarrow> int list" where
  "tolist K t = ints_of_tensor K (payload t)"

subsection \<open>The collectives of horovod.torch.mpi\_ops (parameters) and their trace\<close>

text \<open>
  \<open>size_hvd\<close> is \<open>size()\<close>, the number of workers. What a collective delivers depends
  on the other workers: \<open>allgather_done name t\<close> and \<open>allreduce_done name t\<close> are what
  \<open>synchronize\<close> returns for the operation issued under \<open>name\<close> with the local tensor
  \<open>t\<close>. Every call of \<open>allgather_async\<close>, \<open>allreduce_async\<close> and \<open>synchronize\<close> is
  recorded, in order, in a trace of events; a handle remembers the operation it stands
  for.
\<close>

record 'a mpi_ops =
  size_hvd :: nat
  allgather_done :: "string \<Rightarrow> 'a tensor \<Rightarrow> 'a tensor"
  allreduce_done :: "string \<Rightarrow> 'a tensor \<Rightarrow> 'a tensor"

datatype event = AllgatherAsync string | AllreduceAsync string | Synchronize string

datatype 'a handle = AllgatherHandle string "'a tensor" | AllreduceHandle string "'a tensor"

definition allgather_async :: "'a tensor \<Rightarrow> string \<Rightarrow> event list \<Rightarrow> 'a handle \<times> event list" where
  "allgather_async t name tr = (AllgatherHandle name t, tr @ [AllgatherAsync name])"

definition allreduce_async :: "'a tensor \<Rightarrow> string \<Rightarrow> event list \<Rightarrow> 'a handle \<times> event list" where
  "allreduce_async t name tr = (AllreduceHandle name t, tr @ [AllreduceAsync name])"

fun synchronize :: "'a mpi_ops \<Rightarrow> 'a handle \<Rightarrow> event list \<Rightarrow> 'a tensor \<times> event list" where
  "synchronize H (AllgatherHandle name t) tr = (allgather_done H name t, tr @ [Synchronize name])"
| "synchronize H (AllreduceHandle name t) tr = (allreduce_done H name t, tr @ [Synchronize name])"

fun is_allgather :: "event \<Rightarrow> bool" where
  "is_allgather (AllgatherAsync name) = True"
| "is_allgather e = False"

subsection \<open>class \_SyncBatchNorm(Function)\<close>

text \<open>
  The context object \<open>self\<close> of the autograd function: what \<open>save_for_backward\<close> stored
  (input, weight, mean, invstd) and \<open>needs_input_grad\<close>, a tuple of one boolean per
  input of \<open>forward\<close>.
\<close>

type_synonym 'a saved = "'a tensor \<times> 'a tensor option \<times> 'a tensor \<times> 'a tensor"

type_synonym needs = "bool \<times> bool \<times> bool \<times> bool \<times> bool \<times> bool \<times> bool"

record 'a ctx =
  saved_tensors :: "'a saved"
  needs_input_grad :: needs

fun needs0 :: "needs \<Rightarrow> bool" where
  "needs0 (n0, n1, n2, rest) = n0"

fun needs1 :: "needs \<Rightarrow> bool" where
  "needs1 (n0, n1, n2, rest) = n1"

fun needs2 :: "needs \<Rightarrow> bool" where
  "needs2 (n0, n1, n2, rest) = n2"

text \<open>The parameters of \<open>forward\<close> after the context (line 75).\<close>

definition forward_inputs :: "string list" where
  "forward_inputs =
     [''input'', ''weight'', ''bias'', ''running_mean'', ''running_var'', ''eps'', ''momentum'']"

text \<open>
  What a successful \<open>_SyncBatchNorm.forward\<close> leaves behind: the returned tensor, the
  tensors saved for backward, and the running statistics as the gather kernel updated
  them.
\<close>

record 'a fn_out =
  returned :: "'a tensor"
  saved_for_backward :: "'a saved"
  running_mean_out :: "'a tensor option"
  running_var_out :: "'a tensor option"

text \<open>Lines 86 to 110, reached once the check of line 79 has passed.\<close>

definition sync_and_normalize ::
  "('a, 'r) torch \<Rightarrow> 'a mpi_ops \<Rightarrow> 'a tensor \<Rightarrow> nat \<Rightarrow> 'a tensor option \<Rightarrow> 'a tensor option \<Rightarrow>
   'a tensor option \<Rightarrow> 'a tensor option \<Rightarrow> 'r \<Rightarrow> 'r option \<Rightarrow> 'a fn_out \<times> event list" where
  "sync_and_normalize K H inp sz wt bs rmean rvar ep mom =
     (let count = torch_tensor K [int sz];
          (mean, invstd) = batch_norm_stats K inp ep;
          (count_handle, tr1) = allgather_async (unsqueeze count 0) ''sync_batch_norm.count'' [];
          (mean_handle, tr2) = allgather_async (unsqueeze mean 0) ''sync_batch_norm.mean'' tr1;
          (invstd_handle, tr3) =
             allgather_async (unsqueeze invstd 0) ''sync_batch_norm.invstd'' tr2;
          (count_all, tr4) = synchronize H count_handle tr3;
          (mean_all, tr5) = synchronize H mean_handle tr4;
          (invstd_all, tr6) = synchronize H invstd_handle tr5;
          ((gmean, ginvstd), rmean', rvar') =
             batch_norm_gather_stats_with_counts K inp mean_all invstd_all rmean rvar mom ep
               (tolist K (view_flat count_all))
      in (\<lparr>returned = batch_norm_elemt K inp wt bs gmean ginvstd ep,
           saved_for_backward = (inp, wt, gmean, ginvstd),
           running_mean_out = rmean',
           running_var_out = rvar'\<rparr>, tr6))"

text \<open>\<open>_SyncBatchNorm.forward\<close> (lines 75 to 110).\<close>

definition SyncBatchNormFunction_forward ::
  "('a, 'r) torch \<Rightarrow> 'a mpi_ops \<Rightarrow> 'a tensor \<Rightarrow> 'a tensor option \<Rightarrow> 'a tensor option \<Rightarrow>
   'a tensor option \<Rightarrow> 'a tensor option \<Rightarrow> 'r \<Rightarrow> 'r option \<Rightarrow> (error + 'a fn_out) \<times> event list" where
  "SyncBatchNormFunction_forward K H input0 wt bs rmean rvar ep mom =
     (let inp = contiguous input0 in
      case size_at inp 1 of
        Inl e \<Rightarrow> (Inl e, [])
      | Inr c \<Rightarrow>
          (case floordiv (numel inp) c of
             Inl e \<Rightarrow> (Inl e, [])
           | Inr sz \<Rightarrow>
               if sz = 1 then (Inl (ValueError_one_value_per_channel sz), [])
               else (case sync_and_normalize K H inp sz wt bs rmean rvar ep mom of
                       (r, tr) \<Rightarrow> (Inr r, tr))))"

text \<open>
  \<open>_SyncBatchNorm.backward\<close> (lines 113 to 158). The returned tuple is modelled as the
  list of its entries, \<open>None\<close> being Python's \<open>None\<close>.
\<close>

definition SyncBatchNormFunction_backward ::
  "('a, 'r) torch \<Rightarrow> 'a mpi_ops \<Rightarrow> 'a ctx \<Rightarrow> 'a tensor \<Rightarrow> 'a tensor option list \<times> event list" where
  "SyncBatchNormFunction_backward K H self grad_output0 =
     (let grad_output = contiguous grad_output0;
          (saved_input, wt, mean, invstd) = saved_tensors self;
          nig = needs_input_grad self;
          (mean_dy, mean_dy_xmu, grad_weight, grad_bias) =
             batch_norm_backward_reduce K grad_output saved_input mean invstd wt
               (needs0 nig) (needs1 nig) (needs2 nig);
          (grad_input, tr) =
             (if needs0 nig then
                (let (mean_dy_handle, tr1) =
                        allreduce_async mean_dy ''sync_batch_norm.mean_dy'' [];
                     (mean_dy_xmu_handle, tr2) =
                        allreduce_async mean_dy_xmu ''sync_batch_norm.mean_dy_xmu'' tr1;
                     (mean_dy', tr3) = synchronize H mean_dy_handle tr2;
                     (mean_dy_xmu', tr4) = synchronize H mean_dy_xmu_handle tr3
                 in (Some (batch_norm_backward_elemt K grad_output saved_input mean invstd wt
                             mean_dy' mean_dy_xmu'), tr4))
              else (None, []));
          grad_weight' = (if wt = None \<or> \<not> needs1 nig then None else Some grad_weight);
          grad_bias' = (if wt = None \<or> \<not> needs2 nig then None else Some grad_bias)
      in ([grad_input, grad_weight', grad_bias', None, None, None, None, None, None], tr))"

subsection \<open>class SyncBatchNorm(\_BatchNorm)\<close>

text \<open>
  The attributes of the module that \<open>forward\<close> reads or writes. The counter
  \<open>num_batches_tracked\<close> is read only when \<open>track_running_stats\<close> holds. It is
  a tensor of 64-bit integers, so it is a 64-bit word here: adding 1 to the largest
  value wraps around to the smallest.
\<close>

record ('a, 'r) module =
  training :: bool
  track_running_stats :: bool
  num_batches_tracked :: "64 word"
  running_mean :: "'a tensor option"
  running_var :: "'a tensor option"
  weight :: "'a tensor option"
  bias :: "'a tensor option"
  momentum :: "'r option"
  eps :: 'r

definition check_input_dim :: "'a tensor \<Rightarrow> error + unit" where
  "check_input_dim inp = (if dim inp < 2 then Inl (ValueError_expected_2D (dim inp)) else Inr ())"

text \<open>
  Lines 60 and 61: the step counter of the module. The addition is that of 64-bit
  words and wraps.
\<close>

definition count_batch :: "('a, 'r) module \<Rightarrow> ('a, 'r) module" where
  "count_batch self =
     (if training self \<and> track_running_stats self
      then self\<lparr>num_batches_tracked := num_batches_tracked self + 1\<rparr>
      else self)"

text \<open>
  \<open>SyncBatchNorm.forward\<close> (lines 53 to 70). The result is what the call returns or
  raises, the module as the call leaves it, and the trace of collective calls.
\<close>

definition SyncBatchNorm_forward ::
  "('a, 'r) torch \<Rightarrow> 'a mpi_ops \<Rightarrow> ('a, 'r) module \<Rightarrow> 'a tensor \<Rightarrow>
   (error + 'a tensor) \<times> ('a, 'r) module \<times> event list" where
  "SyncBatchNorm_forward K H self inp =
     (if \<not> is_cuda inp then (Inl ValueError_expected_GPU, self, [])
      else case check_input_dim inp of
        Inl e \<Rightarrow> (Inl e, self, [])
      | Inr u \<Rightarrow>
          (let self1 = count_batch self
           in if size_hvd H = 1 \<or> (\<not> training self1 \<and> track_running_stats self1) then
                (case F_batch_norm K inp (running_mean self1) (running_var self1)
                        (weight self1) (bias self1)
                        (training self1 \<or> \<not> track_running_stats self1)
                        (momentum self1) (eps self1) of
                   (out, rmean', rvar') \<Rightarrow>
                     (Inr out, self1\<lparr>running_mean := rmean', running_var := rvar'\<rparr>, []))
              else
                (case SyncBatchNormFunction_forward K H inp (weight self1) (bias self1)
                        (running_mean self1) (running_var self1) (eps self1) (momentum self1) of
                   (Inl e, tr) \<Rightarrow> (Inl e, self1, tr)
                 | (Inr r, tr) \<Rightarrow>
                     (Inr (returned r),
                      self1\<lparr>running_mean := running_mean_out r,
                            running_var := running_var_out r\<rparr>, tr))))"

subsection \<open>A concrete instance\<close>

text \<open>
  Stand-in kernels and collectives on tensors whose contents are lists of integers, for
  evaluating the model at concrete inputs. The stand-in for \<open>F.batch_norm\<close> returns
  its flag (1 for batch statistics, 0 for running statistics) as the contents of its
  result; \<open>example_mpi n\<close> is a group of \<open>n\<close> workers that all contribute the same
  tensor.
\<close>

definition example_torch :: "(int list, int) torch" where
  "example_torch =
     \<lparr>tensor_of_ints = (\<lambda>xs. xs),
      ints_of_tensor = (\<lambda>xs. xs),
      F_batch_norm = (\<lambda>x rm rv w b use_batch mom ep.
         (x\<lparr>payload := [if use_batch then 1 else 0]\<rparr>, rm, rv)),
      batch_norm_stats = (\<lambda>x ep.
         (\<lparr>shape = [1], is_cuda = True, payload = [2]\<rparr>,
          \<lparr>shape = [1], is_cuda = True, payload = [3]\<rparr>)),
      batch_norm_gather_stats_with_counts = (\<lambda>x means invstds rm rv mom ep counts.
         ((\<lparr>shape = [1], is_cuda = True, payload = payload means\<rparr>,
           \<lparr>shape = [1], is_cuda = True, payload = counts\<rparr>), rm, rv)),
      batch_norm_elemt = (\<lambda>x w b mean invstd ep.
         x\<lparr>payload := payload mean @ payload invstd\<rparr>),
      batch_norm_backward_reduce = (\<lambda>dy x mean invstd w g0 g1 g2.
         (\<lparr>shape = [1], is_cuda = True, payload = [5]\<rparr>,
          \<lparr>shape = [1], is_cuda = True, payload = [6]\<rparr>,
          \<lparr>shape = [1], is_cuda = True, payload = [7]\<rparr>,
          \<lparr>shape = [1], is_cuda = True, payload = [8]\<rparr>)),
      batch_norm_backward_elemt = (\<lambda>dy x mean invstd w mean_dy mean_dy_xmu.
         x\<lparr>payload := payload mean_dy @ payload mean_dy_xmu\<rparr>)\<rparr>"

definition example_mpi :: "nat \<Rightarrow> int list mpi_ops" where
  "example_mpi n =
     \<lparr>size_hvd = n,
      allgather_done = (\<lambda>name t.
         t\<lparr>shape := n # tl (shape t), payload := concat (replicate n (payload t))\<rparr>),
      allreduce_done = (\<lambda>name t. t\<lparr>payload := map (\<lambda>x. int n * x) (payload t)\<rparr>)\<rparr>"

definition example_module :: "bool \<Rightarrow> bool \<Rightarrow> (int list, int) module" where
  "example_module tr tk =
     \<lparr>training = tr, track_running_stats = tk, num_batches_tracked = 0,
      running_mean = None, running_var = None, weight = None, bias = None,
      momentum = None, eps = 0\<rparr>"

definition example_input :: "nat list \<Rightarrow> bool \<Rightarrow> int list tensor" where
  "example_input sh cuda = \<lparr>shape = sh, is_cuda = cuda, payload = []\<rparr>"

definition example_ctx ::
  "bool \<Rightarrow> bool \<Rightarrow> bool \<Rightarrow> int list tensor option \<Rightarrow> int list ctx" where
  "example_ctx n0 n1 n2 wt =
     \<lparr>saved_tensors =
        (example_input [4, 3] True, wt, example_input [3] True, example_input [3] True),
      needs_input_grad = (n0, n1, n2, False, False, False, False)\<rparr>"

section \<open>What each function does, case by case\<close>

text \<open>
  The three functions unfolded into one equation each; every theorem below is read off
  these.
\<close>

lemma sync_and_normalize_trace:
  "snd (sync_and_normalize K H inp sz wt bs rmean rvar ep mom) =
     [AllgatherAsync ''sync_batch_norm.count'', AllgatherAsync ''sync_batch_norm.mean'',
      AllgatherAsync ''sync_batch_norm.invstd'', Synchronize ''sync_batch_norm.count'',
      Synchronize ''sync_batch_norm.mean'', Synchronize ''sync_batch_norm.invstd'']"
  by (simp add: sync_and_normalize_def allgather_async_def Let_def split: prod.splits)

lemma sync_and_normalize_returned:
  "returned (fst (sync_and_normalize K H inp sz wt bs rmean rvar ep mom)) =
     (case batch_norm_stats K inp ep of (mean, invstd) \<Rightarrow>
      case batch_norm_gather_stats_with_counts K inp
             (allgather_done H ''sync_batch_norm.mean'' (unsqueeze mean 0))
             (allgather_done H ''sync_batch_norm.invstd'' (unsqueeze invstd 0))
             rmean rvar mom ep
             (tolist K (view_flat (allgather_done H ''sync_batch_norm.count''
                (unsqueeze (torch_tensor K [int sz]) 0)))) of
        ((gmean, ginvstd), running) \<Rightarrow> batch_norm_elemt K inp wt bs gmean ginvstd ep)"
  by (simp add: sync_and_normalize_def allgather_async_def Let_def split: prod.splits)

lemma Function_forward_cases:
  "SyncBatchNormFunction_forward K H inp wt bs rmean rvar ep mom =
     (if dim inp < 2 then (Inl IndexError, [])
      else if shape inp ! 1 = 0 then (Inl ZeroDivisionError, [])
      else if numel inp div (shape inp ! 1) = 1
        then (Inl (ValueError_one_value_per_channel 1), [])
      else (Inr (fst (sync_and_normalize K H inp (numel inp div (shape inp ! 1))
                        wt bs rmean rvar ep mom)),
            [AllgatherAsync ''sync_batch_norm.count'', AllgatherAsync ''sync_batch_norm.mean'',
             AllgatherAsync ''sync_batch_norm.invstd'', Synchronize ''sync_batch_norm.count'',
             Synchronize ''sync_batch_norm.mean'', Synchronize ''sync_batch_norm.invstd'']))"
  using sync_and_normalize_trace
    [of K H inp "numel inp div (shape inp ! 1)" wt bs rmean rvar ep mom]
  by (auto simp add: SyncBatchNormFunction_forward_def contiguous_def size_at_def floordiv_def
      dim_def Let_def split: prod.splits)

lemma Function_forward_error_trace:
  "fst (SyncBatchNormFunction_forward K H inp wt bs rmean rvar ep mom) = Inl e \<Longrightarrow>
   snd (SyncBatchNormFunction_forward K H inp wt bs rmean rvar ep mom) = []"
  by (simp add: Function_forward_cases split: if_splits)

lemma forward_cases:
  "SyncBatchNorm_forward K H self inp =
     (if \<not> is_cuda inp then (Inl ValueError_expected_GPU, self, [])
      else if dim inp < 2 then (Inl (ValueError_expected_2D (dim inp)), self, [])
      else if size_hvd H = 1 \<or> (\<not> training self \<and> track_running_stats self) then
        (case F_batch_norm K inp (running_mean self) (running_var self) (weight self)
                (bias self) (training self \<or> \<not> track_running_stats self) (momentum self)
                (eps self) of
           (out, rmean', rvar') \<Rightarrow>
             (Inr out, (count_batch self)\<lparr>running_mean := rmean', running_var := rvar'\<rparr>, []))
      else
        (case SyncBatchNormFunction_forward K H inp (weight self) (bias self)
                (running_mean self) (running_var self) (eps self) (momentum self) of
           (Inl e, tr) \<Rightarrow> (Inl e, count_batch self, tr)
         | (Inr r, tr) \<Rightarrow>
             (Inr (returned r),
              (count_batch self)\<lparr>running_mean := running_mean_out r,
                                  running_var := running_var_out r\<rparr>, tr)))"
  by (simp add: SyncBatchNorm_forward_def check_input_dim_def count_batch_def Let_def
      split: prod.splits sum.splits)

lemma backward_cases:
  "SyncBatchNormFunction_backward K H self g =
     (case saved_tensors self of (saved_input, wt, mean, invstd) \<Rightarrow>
      case batch_norm_backward_reduce K (contiguous g) saved_input mean invstd wt
             (needs0 (needs_input_grad self)) (needs1 (needs_input_grad self))
             (needs2 (needs_input_grad self)) of
        (mean_dy, mean_dy_xmu, grad_weight, grad_bias) \<Rightarrow>
      ([if needs0 (needs_input_grad self)
        then Some (batch_norm_backward_elemt K (contiguous g) saved_input mean invstd wt
               (allreduce_done H ''sync_batch_norm.mean_dy'' mean_dy)
               (allreduce_done H ''sync_batch_norm.mean_dy_xmu'' mean_dy_xmu))
        else None,
        if wt = None \<or> \<not> needs1 (needs_input_grad self) then None else Some grad_weight,
        if wt = None \<or> \<not> needs2 (needs_input_grad self) then None else Some grad_bias,
        None, None, None, None, None, None],
       if needs0 (needs_input_grad self)
       then [AllreduceAsync ''sync_batch_norm.mean_dy'',
             AllreduceAsync ''sync_batch_norm.mean_dy_xmu'',
             Synchronize ''sync_batch_norm.mean_dy'',
             Synchronize ''sync_batch_norm.mean_dy_xmu'']
       else []))"
  by (simp add: SyncBatchNormFunction_backward_def allreduce_async_def Let_def
      split: prod.splits)

text \<open>
  The counter is a 64-bit integer: one step after \<open>2^63 - 1\<close> it reads \<open>- 2^63\<close>.
  Whatever its value, the step changes it.
\<close>

lemma count_batch_wraps:
  "training self \<Longrightarrow> track_running_stats self \<Longrightarrow>
   num_batches_tracked self = 9223372036854775807 \<Longrightarrow>
   sint (num_batches_tracked (count_batch self)) = - 9223372036854775808"
  by (simp add: count_batch_def)


text \<open>
  Whenever \<open>SyncBatchNorm.forward\<close> raises the error of line 80 in training mode with
  tracking on, the per-channel count was 1 and the counter has been stepped.
\<close>

lemma one_value_error_after_count:
  assumes "training self" and "track_running_stats self"
    and "fst (SyncBatchNorm_forward K H self inp) = Inl (ValueError_one_value_per_channel n)"
  shows "numel inp div (shape inp ! 1) = 1
         \<and> fst (snd (SyncBatchNorm_forward K H self inp)) = count_batch self"
  using assms
  by (auto simp add: forward_cases Function_forward_cases split: if_splits prod.splits)

section \<open>The claims\<close>

subsection \<open>Dispatch between the local and the synchronized path\<close>

text \<open>
  Claim C1, for calls that pass the two checks of lines 55 to 58. For every call of
  \<open>SyncBatchNorm.forward\<close> whose input is on the GPU and has at least two dimensions:
  if the worker count is 1, or training is off while \<open>track_running_stats\<close> is on, the
  result is that of plain local batch normalization, \<open>F.batch_norm\<close> on the module's
  existing running statistics with the batch-statistics flag
  \<open>training or not track_running_stats\<close>, and no collective call is made; in every
  other case the call is handed to \<open>_SyncBatchNorm\<close>, whose result and whose collective
  calls are those of the whole call.
\<close>

theorem forward_dispatch:
  assumes "is_cuda inp" and "2 \<le> dim inp"
  shows "(if size_hvd H = 1 \<or> (\<not> training self \<and> track_running_stats self)
          then fst (SyncBatchNorm_forward K H self inp) =
                 Inr (fst (F_batch_norm K inp (running_mean self) (running_var self)
                        (weight self) (bias self)
                        (training self \<or> \<not> track_running_stats self)
                        (momentum self) (eps self)))
               \<and> snd (snd (SyncBatchNorm_forward K H self inp)) = []
          else fst (SyncBatchNorm_forward K H self inp) =
                 map_sum id returned
                   (fst (SyncBatchNormFunction_forward K H inp (weight self) (bias self)
                           (running_mean self) (running_var self) (eps self) (momentum self)))
               \<and> snd (snd (SyncBatchNorm_forward K H self inp)) =
                 snd (SyncBatchNormFunction_forward K H inp (weight self) (bias self)
                        (running_mean self) (running_var self) (eps self) (momentum self)))"
  using assms by (simp add: forward_cases split: prod.splits sum.splits)

text \<open>
  The theorem at a single worker in training mode with tracking, on a GPU input of
  shape (4, 3): the local path, with the flag set.
\<close>

theorem forward_dispatch_witness:
  "is_cuda (example_input [4, 3] True) \<and> 2 \<le> dim (example_input [4, 3] True)
   \<and> fst (SyncBatchNorm_forward example_torch (example_mpi 1) (example_module True True)
            (example_input [4, 3] True))
       = Inr \<lparr>shape = [4, 3], is_cuda = True, payload = [1]\<rparr>
   \<and> snd (snd (SyncBatchNorm_forward example_torch (example_mpi 1) (example_module True True)
            (example_input [4, 3] True))) = []"
proof -
  have h1: "is_cuda (example_input [4, 3] True)"
    by (simp add: example_input_def)
  have h2: "2 \<le> dim (example_input [4, 3] True)"
    by (simp add: example_input_def dim_def)
  show ?thesis
    using h1 h2
      forward_dispatch [OF h1 h2, of "example_mpi 1" "example_module True True" example_torch]
    by (simp add: example_mpi_def example_module_def example_torch_def example_input_def)
qed

text \<open>
  Claim C1 as stated speaks of every forward call. With a single worker, an input in
  host memory and a one-dimensional input are both rejected before any normalization
  takes place; and a single worker in training mode with tracking on normalizes with
  batch statistics (the stand-in kernel reports its flag as 1), not with the running
  statistics.
\<close>

theorem forward_dispatch_counterexample:
  "size_hvd (example_mpi 1) = 1
   \<and> SyncBatchNorm_forward example_torch (example_mpi 1) (example_module True True)
        (example_input [4, 3] False)
       = (Inl ValueError_expected_GPU, example_module True True, [])
   \<and> SyncBatchNorm_forward example_torch (example_mpi 1) (example_module True True)
        (example_input [4] True)
       = (Inl (ValueError_expected_2D 1), example_module True True, [])
   \<and> track_running_stats (example_module True True)
   \<and> fst (SyncBatchNorm_forward example_torch (example_mpi 1) (example_module True True)
        (example_input [4, 3] True))
       = Inr (fst (F_batch_norm example_torch (example_input [4, 3] True) None None None None
                True None 0))"
  by (simp add: forward_cases example_mpi_def example_input_def example_module_def
      example_torch_def dim_def)

subsection \<open>The check of the per-channel count\<close>

text \<open>
  Claim C2 at an empty batch of three channels, shape (0, 3), in training mode with two
  workers: the per-channel count is 0, yet neither \<open>SyncBatchNorm.forward\<close> nor
  \<open>_SyncBatchNorm.forward\<close> raises, and the call goes on to issue its three
  all-gathers. The check of line 79 compares the count with 1 only, although its
  message expects more than one value per channel.
\<close>

theorem zero_samples_not_rejected:
  "numel (example_input [0, 3] True) div (shape (example_input [0, 3] True) ! 1) = 0
   \<and> training (example_module True True)
   \<and> \<not> isl (fst (SyncBatchNorm_forward example_torch (example_mpi 2)
              (example_module True True) (example_input [0, 3] True)))
   \<and> snd (snd (SyncBatchNorm_forward example_torch (example_mpi 2)
              (example_module True True) (example_input [0, 3] True)))
       = [AllgatherAsync ''sync_batch_norm.count'', AllgatherAsync ''sync_batch_norm.mean'',
          AllgatherAsync ''sync_batch_norm.invstd'', Synchronize ''sync_batch_norm.count'',
          Synchronize ''sync_batch_norm.mean'', Synchronize ''sync_batch_norm.invstd'']
   \<and> \<not> isl (fst (SyncBatchNormFunction_forward example_torch (example_mpi 2)
              (example_input [0, 3] True) None None None None 0 None))"
  by (simp add: forward_cases Function_forward_cases example_input_def example_module_def
      example_mpi_def dim_def numel_def)

subsection \<open>The shape of the result of backward\<close>

text \<open>
  Claim C3 on the code: every call of \<open>_SyncBatchNorm.backward\<close> returns nine slots,
  while \<open>forward\<close> takes seven inputs; the six slots after the three gradients are
  all \<open>None\<close>.
\<close>

theorem backward_returns_nine_slots:
  "length (fst (SyncBatchNormFunction_backward K H self grad_output)) = 9
   \<and> length forward_inputs = 7
   \<and> drop 3 (fst (SyncBatchNormFunction_backward K H self grad_output)) = replicate 6 None"
  by (simp add: backward_cases forward_inputs_def split: prod.splits)
     (simp add: numeral_eq_Suc)

subsection \<open>Errors come before collectives\<close>

text \<open>
  Claim C4. Whenever \<open>SyncBatchNorm.forward\<close> raises (input not on the GPU, fewer than
  two dimensions, one value per channel, or a zero channel dimension), no collective
  operation has been issued by the call: its trace is empty.
\<close>

theorem validation_error_before_collectives:
  assumes "fst (SyncBatchNorm_forward K H self inp) = Inl e"
  shows "snd (snd (SyncBatchNorm_forward K H self inp)) = []"
proof (cases "SyncBatchNormFunction_forward K H inp (weight self) (bias self)
                (running_mean self) (running_var self) (eps self) (momentum self)")
  case (Pair res tr)
  show ?thesis
  proof (cases res)
    case (Inl e')
    with Pair Function_forward_error_trace [of K H inp "weight self" "bias self"
        "running_mean self" "running_var self" "eps self" "momentum self" e']
    have "tr = []" by simp
    with Pair Inl show ?thesis by (simp add: forward_cases split: prod.splits)
  next
    case (Inr r)
    with Pair assms show ?thesis by (simp add: forward_cases split: if_splits prod.splits)
  qed
qed

text \<open>
  The theorem at two workers and a GPU input of shape (1, 3), one value per channel:
  the error of line 80, and an empty trace.
\<close>

theorem validation_error_before_collectives_witness:
  "fst (SyncBatchNorm_forward example_torch (example_mpi 2) (example_module True True)
          (example_input [1, 3] True)) = Inl (ValueError_one_value_per_channel 1)
   \<and> snd (snd (SyncBatchNorm_forward example_torch (example_mpi 2) (example_module True True)
          (example_input [1, 3] True))) = []"
proof -
  have h: "fst (SyncBatchNorm_forward example_torch (example_mpi 2) (example_module True True)
          (example_input [1, 3] True)) = Inl (ValueError_one_value_per_channel 1)"
    by (simp add: forward_cases Function_forward_cases example_mpi_def example_module_def
        example_input_def dim_def numel_def)
  from validation_error_before_collectives [OF h] h show ?thesis by simp
qed

subsection \<open>Backward without an input gradient\<close>

text \<open>
  Claim C5. For every call of \<open>_SyncBatchNorm.backward\<close> in which the gradient of the
  input is not requested (\<open>needs_input_grad[0]\<close> is false), the call issues no
  collective operation at all and the first slot of its result, \<open>grad_input\<close>, is
  \<open>None\<close>.
\<close>

theorem backward_without_input_grad:
  assumes "\<not> needs0 (needs_input_grad self)"
  shows "snd (SyncBatchNormFunction_backward K H self grad_output) = []
         \<and> fst (SyncBatchNormFunction_backward K H self grad_output) ! 0 = None"
  using assms by (simp add: backward_cases split: prod.splits)

text \<open>
  The theorem at a call that requests the gradients of weight and bias only, with a
  weight present.
\<close>

theorem backward_without_input_grad_witness:
  "\<not> needs0 (needs_input_grad (example_ctx False True True (Some (example_input [3] True))))
   \<and> snd (SyncBatchNormFunction_backward example_torch (example_mpi 2)
            (example_ctx False True True (Some (example_input [3] True)))
            (example_input [4, 3] True)) = []
   \<and> fst (SyncBatchNormFunction_backward example_torch (example_mpi 2)
            (example_ctx False True True (Some (example_input [3] True)))
            (example_input [4, 3] True)) ! 0 = None"
proof -
  have h: "\<not> needs0 (needs_input_grad
               (example_ctx False True True (Some (example_input [3] True))))"
    by (simp add: example_ctx_def)
  from backward_without_input_grad [OF h] h show ?thesis by simp
qed

subsection \<open>The gradients of weight and bias\<close>


subsection \<open>The three all-gathers of forward\<close>

text \<open>
  Claim C7, for calls that pass the check of the per-channel count. For every call of
  \<open>_SyncBatchNorm.forward\<close> on an input with at least two dimensions, a channel
  dimension other than 0 and a per-channel count greater than 1, the call returns, and its
  collective calls are exactly: all-gather of count, of mean, of invstd, each under its
  own name, then the wait for count, for mean, for invstd. All three are issued before
  the first wait, and the sequence depends neither on the input nor on the worker.
\<close>

theorem forward_allgather_order:
  assumes "2 \<le> dim inp" and "shape inp ! 1 \<noteq> 0" and "1 < numel inp div (shape inp ! 1)"
  shows "\<not> isl (fst (SyncBatchNormFunction_forward K H inp wt bs rmean rvar ep mom))
         \<and> snd (SyncBatchNormFunction_forward K H inp wt bs rmean rvar ep mom)
           = [AllgatherAsync ''sync_batch_norm.count'', AllgatherAsync ''sync_batch_norm.mean'',
              AllgatherAsync ''sync_batch_norm.invstd'', Synchronize ''sync_batch_norm.count'',
              Synchronize ''sync_batch_norm.mean'', Synchronize ''sync_batch_norm.invstd'']
         \<and> length (filter is_allgather
              (snd (SyncBatchNormFunction_forward K H inp wt bs rmean rvar ep mom))) = 3
         \<and> distinct [''sync_batch_norm.count'', ''sync_batch_norm.mean'',
                     ''sync_batch_norm.invstd'']"
  using assms by (simp add: Function_forward_cases)

text \<open>The theorem at a GPU input of shape (4, 3), four values per channel.\<close>

theorem forward_allgather_order_witness:
  "2 \<le> dim (example_input [4, 3] True) \<and> shape (example_input [4, 3] True) ! 1 \<noteq> 0
   \<and> 1 < numel (example_input [4, 3] True) div (shape (example_input [4, 3] True) ! 1)
   \<and> snd (SyncBatchNormFunction_forward example_torch (example_mpi 2)
            (example_input [4, 3] True) None None None None 0 None)
       = [AllgatherAsync ''sync_batch_norm.count'', AllgatherAsync ''sync_batch_norm.mean'',
          AllgatherAsync ''sync_batch_norm.invstd'', Synchronize ''sync_batch_norm.count'',
          Synchronize ''sync_batch_norm.mean'', Synchronize ''sync_batch_norm.invstd'']"
proof -
  have h1: "2 \<le> dim (example_input [4, 3] True)"
    by (simp add: example_input_def dim_def)
  have h2: "shape (example_input [4, 3] True) ! 1 \<noteq> 0"
    by (simp add: example_input_def)
  have h3: "1 < numel (example_input [4, 3] True) div (shape (example_input [4, 3] True) ! 1)"
    by (simp add: example_input_def numel_def)
  note run = forward_allgather_order
    [OF h1 h2 h3, of example_torch "example_mpi 2" None None None None 0 None]
  have tr: "snd (SyncBatchNormFunction_forward example_torch (example_mpi 2)
            (example_input [4, 3] True) None None None None 0 None)
       = [AllgatherAsync ''sync_batch_norm.count'', AllgatherAsync ''sync_batch_norm.mean'',
          AllgatherAsync ''sync_batch_norm.invstd'', Synchronize ''sync_batch_norm.count'',
          Synchronize ''sync_batch_norm.mean'', Synchronize ''sync_batch_norm.invstd'']"
    by (rule run [THEN conjunct2, THEN conjunct1])
  show ?thesis by (intro conjI h1 h2 h3 tr)
qed

text \<open>
  Claim C7 as stated speaks of every call on the synchronized path. A call with one
  value per channel, one with a channel dimension of 0 and one with a one-dimensional
  input each raise before the first all-gather: no all-gather is issued, not three.
\<close>

theorem forward_allgather_order_counterexample:
  "SyncBatchNormFunction_forward example_torch (example_mpi 2) (example_input [1, 3] True)
      None None None None 0 None = (Inl (ValueError_one_value_per_channel 1), [])
   \<and> SyncBatchNormFunction_forward example_torch (example_mpi 2) (example_input [2, 0] True)
      None None None None 0 None = (Inl ZeroDivisionError, [])
   \<and> SyncBatchNormFunction_forward example_torch (example_mpi 2) (example_input [4] True)
      None None None None 0 None = (Inl IndexError, [])"
  by (simp add: Function_forward_cases example_input_def dim_def numel_def)

subsection \<open>The step counter and the error of line 80\<close>




subsection \<open>Evaluation mode without tracking\<close>

text \<open>
  Claim C10, for calls that pass the checks. For every call of \<open>SyncBatchNorm.forward\<close>
  with training off, \<open>track_running_stats\<close> off and more than one worker, on a GPU input
  with at least two dimensions, a channel dimension other than 0 and a per-channel count
  greater than 1: the three all-gathers are issued and awaited, and the result is the
  input normalized with the statistics that \<open>batch_norm_gather_stats_with_counts\<close>
  combines from the gathered means, inverse standard deviations and counts of all
  workers.
\<close>

theorem eval_untracked_synchronizes:
  assumes "\<not> training self" and "\<not> track_running_stats self" and "1 < size_hvd H"
    and "is_cuda inp" and "2 \<le> dim inp" and "shape inp ! 1 \<noteq> 0"
    and "1 < numel inp div (shape inp ! 1)"
  shows "snd (snd (SyncBatchNorm_forward K H self inp))
           = [AllgatherAsync ''sync_batch_norm.count'', AllgatherAsync ''sync_batch_norm.mean'',
              AllgatherAsync ''sync_batch_norm.invstd'', Synchronize ''sync_batch_norm.count'',
              Synchronize ''sync_batch_norm.mean'', Synchronize ''sync_batch_norm.invstd'']
         \<and> fst (SyncBatchNorm_forward K H self inp)
           = Inr (case batch_norm_stats K inp (eps self) of (mean, invstd) \<Rightarrow>
                  case batch_norm_gather_stats_with_counts K inp
                         (allgather_done H ''sync_batch_norm.mean'' (unsqueeze mean 0))
                         (allgather_done H ''sync_batch_norm.invstd'' (unsqueeze invstd 0))
                         (running_mean self) (running_var self) (momentum self) (eps self)
                         (tolist K (view_flat (allgather_done H ''sync_batch_norm.count''
                            (unsqueeze
                               (torch_tensor K [int (numel inp div (shape inp ! 1))]) 0)))) of
                    ((gmean, ginvstd), running) \<Rightarrow>
                      batch_norm_elemt K inp (weight self) (bias self) gmean ginvstd (eps self))"
  using assms
  by (simp add: forward_cases Function_forward_cases sync_and_normalize_returned count_batch_def)

text \<open>
  The theorem at two workers in evaluation mode without tracking, on a GPU input of
  shape (4, 3): the gathered counts are 4 and 4, and the stand-in kernels put the
  gathered means and the counts into the result.
\<close>

theorem eval_untracked_synchronizes_witness:
  "\<not> training (example_module False False) \<and> \<not> track_running_stats (example_module False False)
   \<and> 1 < size_hvd (example_mpi 2) \<and> is_cuda (example_input [4, 3] True)
   \<and> 2 \<le> dim (example_input [4, 3] True) \<and> shape (example_input [4, 3] True) ! 1 \<noteq> 0
   \<and> 1 < numel (example_input [4, 3] True) div (shape (example_input [4, 3] True) ! 1)
   \<and> snd (snd (SyncBatchNorm_forward example_torch (example_mpi 2) (example_module False False)
            (example_input [4, 3] True)))
       = [AllgatherAsync ''sync_batch_norm.count'', AllgatherAsync ''sync_batch_norm.mean'',
          AllgatherAsync ''sync_batch_norm.invstd'', Synchronize ''sync_batch_norm.count'',
          Synchronize ''sync_batch_norm.mean'', Synchronize ''sync_batch_norm.invstd'']
   \<and> fst (SyncBatchNorm_forward example_torch (example_mpi 2) (example_module False False)
            (example_input [4, 3] True))
       = Inr \<lparr>shape = [4, 3], is_cuda = True, payload = [2, 2, 4, 4]\<rparr>"
proof -
  have h1: "\<not> training (example_module False False)"
    by (simp add: example_module_def)
  have h2: "\<not> track_running_stats (example_module False False)"
    by (simp add: example_module_def)
  have h3: "1 < size_hvd (example_mpi 2)"
    by (simp add: example_mpi_def)
  have h4: "is_cuda (example_input [4, 3] True)"
    by (simp add: example_input_def)
  have h5: "2 \<le> dim (example_input [4, 3] True)"
    by (simp add: example_input_def dim_def)
  have h6: "shape (example_input [4, 3] True) ! 1 \<noteq> 0"
    by (simp add: example_input_def)
  have h7: "1 < numel (example_input [4, 3] True) div (shape (example_input [4, 3] True) ! 1)"
    by (simp add: example_input_def numel_def)
  note run = eval_untracked_synchronizes [OF h1 h2 h3 h4 h5 h6 h7, of example_torch]
  have tr: "snd (snd (SyncBatchNorm_forward example_torch (example_mpi 2)
            (example_module False False) (example_input [4, 3] True)))
       = [AllgatherAsync ''sync_batch_norm.count'', AllgatherAsync ''sync_batch_norm.mean'',
          AllgatherAsync ''sync_batch_norm.invstd'', Synchronize ''sync_batch_norm.count'',
          Synchronize ''sync_batch_norm.mean'', Synchronize ''sync_batch_norm.invstd'']"
    using run by (rule conjunct1)
  have res: "fst (SyncBatchNorm_forward example_torch (example_mpi 2)
            (example_module False False) (example_input [4, 3] True))
       = Inr \<lparr>shape = [4, 3], is_cuda = True, payload = [2, 2, 4, 4]\<rparr>"
    by (subst run [THEN conjunct2])
       (simp add: example_torch_def example_mpi_def example_module_def example_input_def
        numel_def unsqueeze_def view_flat_def tolist_def torch_tensor_def numeral_2_eq_2)
  show ?thesis by (intro conjI h1 h2 h3 h4 h5 h6 h7 tr res)
qed

text \<open>
  Claim C10 as stated speaks of every such call. In evaluation mode without tracking
  and with two workers, an input in host memory, a one-dimensional input, an input with
  a channel dimension of 0 and an input with one value per channel are each rejected
  with no collective issued.
\<close>

theorem eval_untracked_synchronizes_counterexample:
  "\<not> training (example_module False False) \<and> \<not> track_running_stats (example_module False False)
   \<and> 1 < size_hvd (example_mpi 2)
   \<and> SyncBatchNorm_forward example_torch (example_mpi 2) (example_module False False)
        (example_input [4, 3] False)
       = (Inl ValueError_expected_GPU, example_module False False, [])
   \<and> SyncBatchNorm_forward example_torch (example_mpi 2) (example_module False False)
        (example_input [4] True)
       = (Inl (ValueError_expected_2D 1), example_module False False, [])
   \<and> SyncBatchNorm_forward example_torch (example_mpi 2) (example_module False False)
        (example_input [2, 0] True)
       = (Inl ZeroDivisionError, example_module False False, [])
   \<and> SyncBatchNorm_forward example_torch (example_mpi 2) (example_module False False)
        (example_input [1, 3] True)
       = (Inl (ValueError_one_value_per_channel 1), example_module False False, [])"
  by (simp add: forward_cases Function_forward_cases count_batch_def example_mpi_def
      example_module_def example_input_def dim_def numel_def)

end
